theory Spec2Isabelle
  imports Main
begin

section \<open>Python strings\<close>

text \<open>
  A Python \<open>str\<close> is a sequence of Unicode code points, so it is modelled as a list of
  natural numbers. \<open>asc\<close> turns an ASCII literal into such a list; code points beyond
  ASCII are written as numbers (\<open>8226\<close> is the bullet U+2022, \<open>8594\<close> the arrow U+2192).
\<close>

type_synonym pystr = "nat list"

abbreviation (input) asc :: "string \<Rightarrow> pystr" where
  "asc s \<equiv> map of_char s"

abbreviation (input) star :: nat where "star \<equiv> 42"
abbreviation (input) hash :: nat where "hash \<equiv> 35"
abbreviation (input) LF :: nat where "LF \<equiv> 10"

text \<open>\<open>str.isspace\<close> of one code point: the characters \<open>str.strip()\<close> removes.\<close>

definition py_isspace :: "nat \<Rightarrow> bool" where
  "py_isspace c \<longleftrightarrow>
     (9 \<le> c \<and> c \<le> 13) \<or> (28 \<le> c \<and> c \<le> 32) \<or> c = 133 \<or> c = 160 \<or> c = 5760 \<or>
     (8192 \<le> c \<and> c \<le> 8202) \<or> c = 8232 \<or> c = 8233 \<or> c = 8239 \<or> c = 8287 \<or> c = 12288"

definition strip :: "pystr \<Rightarrow> pystr" where
  "strip s = rev (dropWhile py_isspace (rev (dropWhile py_isspace s)))"

text \<open>\<open>sep.join(xs)\<close>.\<close>

fun join :: "pystr \<Rightarrow> pystr list \<Rightarrow> pystr" where
  "join sep [] = []"
| "join sep [x] = x"
| "join sep (x # y # ys) = x @ sep @ join sep (y # ys)"

text \<open>\<open>s.split(c)\<close> for a separator of one character.\<close>

fun split_chr :: "nat \<Rightarrow> pystr \<Rightarrow> pystr list" where
  "split_chr sep [] = [[]]"
| "split_chr sep (c # cs) =
     (if c = sep then [] # split_chr sep cs
      else (case split_chr sep cs of [] \<Rightarrow> [[c]] | w # ws \<Rightarrow> (c # w) # ws))"

text \<open>\<open>s.split('\n\n')\<close>: the separator is found left to right, without overlap.\<close>

fun split_blank :: "pystr \<Rightarrow> pystr list" where
  "split_blank [] = [[]]"
| "split_blank [c] = [[c]]"
| "split_blank (c # d # cs) =
     (if c = LF \<and> d = LF then [] # split_blank cs
      else (case split_blank (d # cs) of [] \<Rightarrow> [[c]] | w # ws \<Rightarrow> (c # w) # ws))"

definition startswith :: "pystr \<Rightarrow> pystr \<Rightarrow> bool" where
  "startswith s p \<longleftrightarrow> take (length p) s = p"

text \<open>\<open>p in s\<close> for strings.\<close>

fun contains :: "pystr \<Rightarrow> pystr \<Rightarrow> bool" where
  "contains [] p \<longleftrightarrow> p = []"
| "contains (c # cs) p \<longleftrightarrow> startswith (c # cs) p \<or> contains cs p"

text \<open>\<open>s.replace(c, '')\<close> for one character, and \<open>re.sub(r'[*#]', '', s)\<close>.\<close>

definition remove_chr :: "nat \<Rightarrow> pystr \<Rightarrow> pystr" where
  "remove_chr c s = filter (\<lambda>x. x \<noteq> c) s"

definition remove_markup :: "pystr \<Rightarrow> pystr" where
  "remove_markup s = filter (\<lambda>x. x \<noteq> star \<and> x \<noteq> hash) s"

text \<open>Python's \<open>str(n)\<close> for a non-negative integer.\<close>

fun str_nat :: "nat \<Rightarrow> pystr" where
  "str_nat n = (if n < 10 then [48 + n] else str_nat (n div 10) @ [48 + n mod 10])"

declare str_nat.simps [simp del]

section \<open>What the program takes from outside\<close>

text \<open>
  The slide deck as python-pptx presents it: for each shape, whether it has a text frame,
  whether it is the slide's title placeholder (\<open>shape == slide.shapes.title\<close>), whether
  it has a \<open>text\<close> attribute, its text, and the texts of its paragraphs.
\<close>

record shape =
  has_text_frame :: bool
  is_title :: bool
  has_text :: bool
  shape_text :: pystr
  paragraphs :: "pystr list"

type_synonym slide = "shape list"

text \<open>The paragraph styles of \<open>custom_styles\<close>, and the flowables of a story.\<close>

datatype style =
  CustomTitle | Metadata | SectionHeader | SubHeader | NormalText | BulletText
  | ImportantNote | KeyPoint

datatype flowable = Paragraph pystr style | Spacer nat nat

text \<open>
  The libraries and the process state are parameters of the model:
  \<^item> \<open>lower_u\<close> is \<open>str.lower()\<close> on a string that has a non-ASCII character, \<open>isdigit_u\<close>
    is \<open>str.isdigit()\<close> on a non-ASCII code point (on ASCII both are written out below);
  \<^item> \<open>today\<close> is \<open>datetime.now().strftime('%B %d, %Y')\<close>;
  \<^item> \<open>api_key\<close> says whether \<open>GOOGLE_API_KEY\<close> is set;
  \<^item> \<open>presentation\<close> is python-pptx reading the uploaded bytes: the slides, or the
    message of the exception it raises;
  \<^item> \<open>generate_content\<close> is the model's answer to a prompt, or the message of the
    exception raised;
  \<^item> \<open>paragraph_error\<close> is reportlab's \<open>Paragraph(text, style)\<close>: \<open>None\<close> when the
    paragraph is built, the message of the exception otherwise;
  \<^item> \<open>layout\<close> is reportlab's pagination inside \<open>doc.build\<close>: the flowables of each
    page, or the message of the exception raised (a layout error, an unwritable file);
  \<^item> \<open>http_exception_str\<close> is \<open>str(e)\<close> of an \<open>HTTPException\<close>.
\<close>

record env =
  lower_u :: "pystr \<Rightarrow> pystr"
  isdigit_u :: "nat \<Rightarrow> bool"
  today :: pystr
  api_key :: bool
  presentation :: "pystr \<Rightarrow> pystr + slide list"
  generate_content :: "pystr \<Rightarrow> pystr + pystr"
  paragraph_error :: "pystr \<Rightarrow> style \<Rightarrow> pystr option"
  layout :: "flowable list \<Rightarrow> pystr + flowable list list"
  http_exception_str :: "nat \<Rightarrow> pystr \<Rightarrow> pystr"

text \<open>
  An exception leaving a function: an \<open>HTTPException\<close> with its status code and detail,
  or an exception of reportlab with its message.
\<close>

datatype error = HTTPException nat pystr | ReportlabError pystr

definition lower :: "env \<Rightarrow> pystr \<Rightarrow> pystr" where
  "lower E s =
     (if \<forall>c \<in> set s. c < 128 then map (\<lambda>c. if 65 \<le> c \<and> c \<le> 90 then c + 32 else c) s
      else lower_u E s)"

definition isdigit :: "env \<Rightarrow> nat \<Rightarrow> bool" where
  "isdigit E c \<longleftrightarrow> (if c < 128 then 48 \<le> c \<and> c \<le> 57 else isdigit_u E c)"

section \<open>The catalog \<open>MATERIAL_TYPES\<close>\<close>

record material =
  name :: pystr
  description :: pystr
  prompt_modifier :: pystr

definition comprehensive :: material where
  "comprehensive =
     \<lparr>name = asc ''Comprehensive Study Notes'',
      description = asc ''Detailed explanations covering all aspects'',
      prompt_modifier = asc ''Create extremely detailed and comprehensive notes with thorough explanations, multiple examples, and deep conceptual understanding.''\<rparr>"

definition MATERIAL_TYPES :: "pystr \<rightharpoonup> material" where
  "MATERIAL_TYPES = map_of
     [(asc ''comprehensive'', comprehensive),
      (asc ''summarized'',
       \<lparr>name = asc ''Summarized Key Points'',
        description = asc ''Concise summary focusing on essential concepts'',
        prompt_modifier = asc ''Create a concise summary that captures only the most essential information and key takeaways. Be brief but complete.''\<rparr>),
      (asc ''pointwise'',
       \<lparr>name = asc ''Point-wise Structure'',
        description = asc ''Bullet points for easy memorization'',
        prompt_modifier = asc ''Structure everything in clear bullet points and numbered lists. Make it easy to scan and memorize. Use short, impactful statements.''\<rparr>),
      (asc ''prerequisite'',
       \<lparr>name = asc ''Prerequisite-Focused'',
        description = asc ''Emphasizes foundational concepts'',
        prompt_modifier = asc ''Focus heavily on prerequisite knowledge and foundational concepts. Build from basics to advanced. Include background information that students might be missing.''\<rparr>),
      (asc ''problem_solving'',
       \<lparr>name = asc ''Problem-Solving Oriented'',
        description = asc ''Focus on practical applications and exercises'',
        prompt_modifier = asc ''Emphasize problem-solving techniques, worked examples, practice problems, and step-by-step solutions. Include common mistakes to avoid.''\<rparr>),
      (asc ''visual_learning'',
       \<lparr>name = asc ''Visual Learning Guide'',
        description = asc ''Structured for visual learners with diagrams descriptions'',
        prompt_modifier = asc ''Structure content for visual learners. Describe concepts that would benefit from diagrams, flowcharts, and mind maps. Use analogies and visual metaphors.''\<rparr>),
      (asc ''exam_focused'',
       \<lparr>name = asc ''Exam Preparation'',
        description = asc ''Tailored for test preparation'',
        prompt_modifier = asc ''Focus on exam-relevant content, important formulas, frequently asked questions, and exam tips. Highlight what'' @ [39] @ asc ''s most likely to appear in tests.''\<rparr>)]"

section \<open>\<open>extract_text_with_structure\<close>\<close>

record slide_text =
  slide_number :: nat
  title :: pystr
  content :: "pystr list"

record extraction =
  total_slides :: nat
  slides :: "slide_text list"
  full_text :: pystr

text \<open>
  The test of line 107: the shape is the slide's title placeholder, or it has a
  \<open>text\<close> attribute and the slide is the first one.
\<close>

definition title_candidate :: "nat \<Rightarrow> shape \<Rightarrow> bool" where
  "title_candidate slide_num sh \<longleftrightarrow> is_title sh \<or> (has_text sh \<and> slide_num = 1)"

text \<open>The body of the loop over the shapes of one slide, and the loop.\<close>

definition scan_shape :: "nat \<Rightarrow> slide_text \<Rightarrow> shape \<Rightarrow> slide_text" where
  "scan_shape slide_num st sh =
     (if \<not> has_text_frame sh then st
      else if title_candidate slide_num sh then st\<lparr>title := shape_text sh\<rparr>
      else st\<lparr>content := content st
                 @ map strip (filter (\<lambda>p. strip p \<noteq> []) (paragraphs sh))\<rparr>)"

fun scan_shapes :: "nat \<Rightarrow> slide_text \<Rightarrow> shape list \<Rightarrow> slide_text" where
  "scan_shapes slide_num st [] = st"
| "scan_shapes slide_num st (sh # shs) = scan_shapes slide_num (scan_shape slide_num st sh) shs"

definition scan_slide :: "nat \<Rightarrow> slide \<Rightarrow> slide_text" where
  "scan_slide slide_num sl =
     scan_shapes slide_num \<lparr>slide_number = slide_num, title = [], content = []\<rparr> sl"

text \<open>The loop over the slides, numbered from \<open>slide_num\<close>: a slide is kept when its
  title or its content is not empty.\<close>

fun scan_slides :: "nat \<Rightarrow> slide list \<Rightarrow> slide_text list" where
  "scan_slides slide_num [] = []"
| "scan_slides slide_num (sl # sls) =
     (if title (scan_slide slide_num sl) \<noteq> [] \<or> content (scan_slide slide_num sl) \<noteq> []
      then [scan_slide slide_num sl] else [])
     @ scan_slides (slide_num + 1) sls"

definition slide_lines :: "slide_text \<Rightarrow> pystr" where
  "slide_lines s =
     asc ''Slide '' @ str_nat (slide_number s) @ asc '': '' @ title s @ [LF]
       @ join [LF] (content s)"

definition extract_text_with_structure :: "env \<Rightarrow> pystr \<Rightarrow> error + extraction" where
  "extract_text_with_structure E file_stream =
     (case presentation E file_stream of
        Inl msg \<Rightarrow> Inl (HTTPException 500 (asc ''Failed to process PowerPoint: '' @ msg))
      | Inr deck \<Rightarrow>
          Inr \<lparr>total_slides = length deck,
               slides = scan_slides 1 deck,
               full_text = join [LF] (map slide_lines (scan_slides 1 deck))\<rparr>)"

section \<open>The prompt of \<open>generate_targeted_study_material\<close>\<close>

definition material_config :: "pystr \<Rightarrow> material" where
  "material_config material_type =
     (case MATERIAL_TYPES material_type of None \<Rightarrow> comprehensive | Some m \<Rightarrow> m)"

text \<open>The seven numbered directives of the weak-spots block (lines 153 to 160).\<close>

definition weak_spots_directives :: pystr where
  "weak_spots_directives = concat
     [asc ''        IMPORTANT INSTRUCTIONS FOR WEAK SPOTS:\<newline>'',
      asc ''        1. Provide EXTRA detailed explanations for these topics\<newline>'',
      asc ''        2. Include multiple examples for each weak spot\<newline>'',
      asc ''        3. Break down complex concepts into simpler steps\<newline>'',
      asc ''        4. Explain prerequisites needed to understand these topics\<newline>'',
      asc ''        5. Include common misconceptions and clarifications\<newline>'',
      asc ''        6. Add practice questions specifically targeting these areas\<newline>'',
      asc ''        7. Use analogies and real-world applications\<newline>'']"

text \<open>The entries the block lists: \<open>[f'"{spot}"' for spot in weak_spots if spot.strip()]\<close>.\<close>

definition quoted_spots :: "pystr list \<Rightarrow> pystr list" where
  "quoted_spots weak_spots =
     map (\<lambda>spot. [34] @ spot @ [34]) (filter (\<lambda>spot. strip spot \<noteq> []) weak_spots)"

text \<open>The f-string of lines 148 to 161.\<close>

definition weak_spots_block :: "pystr list \<Rightarrow> pystr" where
  "weak_spots_block weak_spots = concat
     [asc ''\<newline>'',
      asc ''        CRITICAL STUDENT WEAK SPOTS:\<newline>'',
      asc ''        The student particularly struggles with the following concepts:\<newline>'',
      asc ''        '' @ join (asc '', '') (quoted_spots weak_spots) @ asc ''\<newline>'',
      asc ''        \<newline>'',
      weak_spots_directives,
      asc ''        '']"

text \<open>\<open>weak_spots and any(weak_spots)\<close>: the list is not empty and has a non-empty
  string.\<close>

definition weak_spots_text :: "pystr list \<Rightarrow> pystr" where
  "weak_spots_text weak_spots =
     (if weak_spots \<noteq> [] \<and> (\<exists>spot \<in> set weak_spots. spot \<noteq> [])
      then weak_spots_block weak_spots else [])"

definition difficulty_instructions :: "pystr \<Rightarrow> pystr" where
  "difficulty_instructions difficulty_level =
     (if difficulty_level = asc ''beginner''
      then asc ''Use simple language, avoid jargon, explain everything from basics.''
      else if difficulty_level = asc ''intermediate''
      then asc ''Balance between foundational concepts and advanced topics.''
      else if difficulty_level = asc ''advanced''
      then asc ''Include complex concepts, theoretical depth, and advanced applications.''
      else [])"

text \<open>Lines 189 to 197, and lines 199 to 205 with the weak-spots text in its place.\<close>

definition formatting_requirements :: pystr where
  "formatting_requirements = concat
     [asc ''        FORMATTING REQUIREMENTS:\<newline>'',
      asc ''        1. Use clear hierarchical structure with headers\<newline>'',
      asc ''        2. Include relevant examples and explanations\<newline>'',
      asc ''        3. For weak spots, provide extra detail and clarity\<newline>'',
      asc ''        4. Use formatting markers: **bold** for emphasis, *italic* for terms\<newline>'',
      asc ''        5. Number important points and use bullet points for lists\<newline>'',
      asc ''        6. Include a summary section at the end\<newline>'',
      asc ''        7. Add '' @ [34] @ asc ''Key Takeaways'' @ [34] @ asc '' for each major topic\<newline>'',
      asc ''        8. If relevant, include formulas, definitions, and important dates\<newline>'']"

definition output_length_restrictions :: "pystr \<Rightarrow> pystr" where
  "output_length_restrictions wst = concat
     [asc ''        OUTPUT LENGTH RESTRICTIONS:\<newline>'',
      asc ''        - The response must fit within a maximum of 2 pages in a standard PDF ('' @ [8776] @ asc '' 600'' @ [8211] @ asc ''800 words total).\<newline>'',
      asc ''        - Be concise and avoid unnecessary repetition.\<newline>'',
      asc ''        - Prioritize clarity and weak spot coverage over breadth.\<newline>'',
      asc ''        - Do not expand on all content; only cover '' @ wst @ asc '' as specified.\<newline>'',
      asc ''\<newline>'',
      asc ''        Remember: focus only on the weak spots, and compress explanations so the entire material fits within 2 PDF pages.\<newline>'']"

text \<open>Lines 170 to 188: everything before the formatting requirements.\<close>

definition prompt_head ::
  "extraction \<Rightarrow> pystr \<Rightarrow> material \<Rightarrow> pystr \<Rightarrow> pystr \<Rightarrow> pystr" where
  "prompt_head ppt_content wst config difficulty_level additional_instructions = concat
     [asc ''\<newline>'',
      asc ''        You are an expert educational content creator. Generate high-quality study material based on the PowerPoint content provided.\<newline>'',
      asc ''\<newline>'',
      asc ''        MATERIAL TYPE: '' @ name config @ asc ''\<newline>'',
      asc ''        STYLE INSTRUCTION: '' @ prompt_modifier config @ asc ''\<newline>'',
      asc ''\<newline>'',
      asc ''        DIFFICULTY LEVEL: '' @ difficulty_level @ asc ''\<newline>'',
      asc ''        '' @ difficulty_instructions difficulty_level @ asc ''\<newline>'',
      asc ''\<newline>'',
      asc ''        '' @ wst @ asc ''\<newline>'',
      asc ''\<newline>'',
      asc ''        ADDITIONAL TUTOR INSTRUCTIONS:\<newline>'',
      asc ''        '' @ (if additional_instructions \<noteq> [] then additional_instructions
                          else asc ''None provided'') @ asc ''\<newline>'',
      asc ''\<newline>'',
      asc ''        POWERPOINT CONTENT:\<newline>'',
      asc ''        Total Slides: '' @ str_nat (total_slides ppt_content) @ asc ''\<newline>'',
      asc ''        Content:\<newline>'',
      asc ''        '' @ full_text ppt_content @ asc ''\<newline>'',
      asc ''\<newline>'']"

text \<open>The f-string of lines 170 to 206.\<close>

definition prompt ::
  "extraction \<Rightarrow> pystr list \<Rightarrow> pystr \<Rightarrow> pystr \<Rightarrow> pystr \<Rightarrow> pystr" where
  "prompt ppt_content weak_spots material_type difficulty_level additional_instructions =
     prompt_head ppt_content (weak_spots_text weak_spots) (material_config material_type)
         difficulty_level additional_instructions
       @ formatting_requirements
       @ asc ''\<newline>''
       @ output_length_restrictions (weak_spots_text weak_spots)
       @ asc ''        ''"

definition generate_targeted_study_material ::
  "env \<Rightarrow> extraction \<Rightarrow> pystr list \<Rightarrow> pystr \<Rightarrow> pystr \<Rightarrow> pystr \<Rightarrow> error + pystr" where
  "generate_targeted_study_material E ppt_content weak_spots material_type difficulty_level
       additional_instructions =
     (if \<not> api_key E then Inl (HTTPException 500 (asc ''Gemini API key not configured''))
      else
        (case generate_content E
                (prompt ppt_content weak_spots material_type difficulty_level
                   additional_instructions) of
           Inl msg \<Rightarrow>
             Inl (HTTPException 500 (asc ''Failed to generate study material: '' @ msg))
         | Inr response_text \<Rightarrow> Inr response_text))"

section \<open>Inline markup: \<open>convert_markdown_to_html\<close>\<close>

text \<open>\<open>xml.sax.saxutils.escape\<close>: \<open>&\<close>, \<open>>\<close> and \<open><\<close> become entities.\<close>

definition escape_chr :: "nat \<Rightarrow> pystr" where
  "escape_chr c =
     (if c = 38 then asc ''&amp;'' else if c = 62 then asc ''&gt;''
      else if c = 60 then asc ''&lt;'' else [c])"

definition escape :: "pystr \<Rightarrow> pystr" where
  "escape s = concat (map escape_chr s)"

text \<open>
  \<open>re.sub(r'\*\*([^*]+)\*\*', r'<b>\1</b>', text)\<close>. The scan goes left to right; at a
  position holding \<open>**\<close> the group is the longest run without an asterisk, which must be
  non-empty and followed by \<open>**\<close> (a shorter run is followed by a character of the run,
  so backtracking finds nothing else); after a match the scan resumes behind it.
\<close>

function sub_bold :: "pystr \<Rightarrow> pystr" where
  "sub_bold [] = []"
| "sub_bold (c # cs) =
     (if c = star \<and> take 1 cs = [star]
         \<and> takeWhile (\<lambda>x. x \<noteq> star) (drop 1 cs) \<noteq> []
         \<and> take 2 (dropWhile (\<lambda>x. x \<noteq> star) (drop 1 cs)) = [star, star]
      then asc ''<b>'' @ takeWhile (\<lambda>x. x \<noteq> star) (drop 1 cs) @ asc ''</b>''
             @ sub_bold (drop 2 (dropWhile (\<lambda>x. x \<noteq> star) (drop 1 cs)))
      else c # sub_bold cs)"
  by pat_completeness auto
termination
proof (relation "measure length")
  fix c :: nat and cs :: pystr
  have "length (dropWhile (\<lambda>x. x \<noteq> star) (drop 1 cs)) \<le> length (drop 1 cs)"
    by (rule length_dropWhile_le)
  then show "(drop 2 (dropWhile (\<lambda>x. x \<noteq> star) (drop 1 cs)), c # cs) \<in> measure length"
    by simp
qed auto

text \<open>
  \<open>re.sub(r'(?<!\*)\*([^*]+)\*(?!\*)', r'<i>\1</i>', text)\<close>. The flag says whether the
  character before the current position is an asterisk (the lookbehind reads the subject
  string, also behind an earlier match).
\<close>

function sub_italic :: "bool \<Rightarrow> pystr \<Rightarrow> pystr" where
  "sub_italic prev [] = []"
| "sub_italic prev (c # cs) =
     (if c = star \<and> \<not> prev
         \<and> takeWhile (\<lambda>x. x \<noteq> star) cs \<noteq> []
         \<and> take 1 (dropWhile (\<lambda>x. x \<noteq> star) cs) = [star]
         \<and> take 1 (drop 1 (dropWhile (\<lambda>x. x \<noteq> star) cs)) \<noteq> [star]
      then asc ''<i>'' @ takeWhile (\<lambda>x. x \<noteq> star) cs @ asc ''</i>''
             @ sub_italic True (drop 1 (dropWhile (\<lambda>x. x \<noteq> star) cs))
      else c # sub_italic (c = star) cs)"
  by pat_completeness auto
termination
proof (relation "measure (\<lambda>(prev, s). length s)")
  fix c :: nat and cs :: pystr
  have "length (dropWhile (\<lambda>x. x \<noteq> star) cs) \<le> length cs"
    by (rule length_dropWhile_le)
  then show "((True, drop 1 (dropWhile (\<lambda>x. x \<noteq> star) cs)), (prev, c # cs))
               \<in> measure (\<lambda>(prev, s). length s)" for prev
    by simp
qed auto

definition convert_markdown_to_html :: "pystr \<Rightarrow> pystr" where
  "convert_markdown_to_html text = sub_italic False (sub_bold (escape text))"

section \<open>\<open>create_professional_pdf\<close>: from lines to flowables\<close>

text \<open>
  The branch a stripped line takes in the \<open>if\<close>/\<open>elif\<close> chain of lines 371 to 417,
  tested in the source's order.
\<close>

datatype block =
  BlankLine | SubHeaderBlock | SectionHeaderBlock | DocumentTitle | KeyPointBlock
  | BulletItem | NumberedItem | ParagraphBlock

definition classify :: "env \<Rightarrow> pystr \<Rightarrow> block" where
  "classify E line =
     (if line = [] then BlankLine
      else if startswith line (asc ''###'') then SubHeaderBlock
      else if startswith line (asc ''##'') then SectionHeaderBlock
      else if startswith line (asc ''#'') then DocumentTitle
      else if contains (lower E line) (asc ''key takeaway'')
              \<or> contains (lower E line) (asc ''important:'') then KeyPointBlock
      else if startswith line [8226] \<or> startswith line (asc ''-'') \<or> startswith line [8594]
              \<or> (startswith line (asc ''*'') \<and> length line > 1 \<and> line ! 1 = 32)
           then BulletItem
      else if length line > 2 \<and> isdigit E (line ! 0)
              \<and> (line ! 1 = 46 \<or> (length line > 3 \<and> take 2 (drop 1 line) = asc ''. ''))
           then NumberedItem
      else ParagraphBlock)"

text \<open>\<open>story.append(Paragraph(text, style))\<close>: the constructor may raise.\<close>

definition append_paragraph ::
  "env \<Rightarrow> flowable list \<Rightarrow> pystr \<Rightarrow> style \<Rightarrow> error + flowable list" where
  "append_paragraph E story t st =
     (case paragraph_error E t st of
        Some msg \<Rightarrow> Inl (ReportlabError msg)
      | None \<Rightarrow> Inr (story @ [Paragraph t st]))"

text \<open>
  One turn of the loop over the lines: the story and \<open>in_list\<close> before, and after. An
  exception of a paragraph is caught for a normal-text line only, and there only for
  the first attempt.
\<close>

definition add_line ::
  "env \<Rightarrow> flowable list \<times> bool \<Rightarrow> pystr \<Rightarrow> error + flowable list \<times> bool" where
  "add_line E s raw =
     (let story = fst s; in_list = snd s; line = strip raw in
      case classify E line of
        BlankLine \<Rightarrow> Inr (if in_list then (story @ [Spacer 1 6], False) else (story, in_list))
      | SubHeaderBlock \<Rightarrow>
          map_sum id (\<lambda>story'. (story', in_list))
            (append_paragraph E story
               (convert_markdown_to_html (strip (remove_chr hash line))) SubHeader)
      | SectionHeaderBlock \<Rightarrow>
          map_sum id (\<lambda>story'. (story', in_list))
            (append_paragraph E story
               (convert_markdown_to_html (strip (remove_chr hash line))) SectionHeader)
      | DocumentTitle \<Rightarrow>
          map_sum id (\<lambda>story'. (story', in_list))
            (append_paragraph E story
               (convert_markdown_to_html (strip (remove_chr hash line))) CustomTitle)
      | KeyPointBlock \<Rightarrow>
          map_sum id (\<lambda>story'. (story', in_list))
            (append_paragraph E story (convert_markdown_to_html line) KeyPoint)
      | BulletItem \<Rightarrow>
          map_sum id (\<lambda>story'. (story', True))
            (append_paragraph E story
               ([8226, 32] @ (if startswith line (asc ''*'')
                              then convert_markdown_to_html (strip (drop 2 line))
                              else convert_markdown_to_html (strip (drop 1 line))))
               BulletText)
      | NumberedItem \<Rightarrow>
          map_sum id (\<lambda>story'. (story', True))
            (append_paragraph E story (convert_markdown_to_html line) BulletText)
      | ParagraphBlock \<Rightarrow>
          (case append_paragraph E story (convert_markdown_to_html line) NormalText of
             Inr story' \<Rightarrow> Inr (story', in_list)
           | Inl e \<Rightarrow>
               map_sum id (\<lambda>story'. (story', in_list))
                 (append_paragraph E story
                    (escape (remove_chr hash (remove_chr star line))) NormalText)))"

fun add_lines ::
  "env \<Rightarrow> flowable list \<times> bool \<Rightarrow> pystr list \<Rightarrow> error + flowable list \<times> bool" where
  "add_lines E s [] = Inr s"
| "add_lines E s (raw # raws) =
     (case add_line E s raw of Inl e \<Rightarrow> Inl e | Inr s' \<Rightarrow> add_lines E s' raws)"

text \<open>The \<open>metadata\<close> dictionary: each key may be absent.\<close>

record metadata =
  md_date :: "pystr option"
  md_material_type :: "pystr option"
  md_weak_spots :: "pystr list option"
  md_difficulty :: "pystr option"

definition meta_text :: "env \<Rightarrow> metadata \<Rightarrow> pystr" where
  "meta_text E md =
     asc ''Generated on '' @ (case md_date md of None \<Rightarrow> today E | Some d \<Rightarrow> d) @ asc ''<br/>''
     @ asc ''Material Type: ''
     @ (case md_material_type md of None \<Rightarrow> asc ''Study Notes'' | Some m \<Rightarrow> m) @ asc ''<br/>''
     @ (case md_weak_spots md of
          None \<Rightarrow> []
        | Some ws \<Rightarrow> if ws = [] then [] else asc ''Focus Areas: '' @ join (asc '', '') (take 3 ws))"

text \<open>The story of lines 352 to 417, or the exception that leaves the function there.\<close>

definition structured_story :: "env \<Rightarrow> pystr \<Rightarrow> metadata \<Rightarrow> error + flowable list" where
  "structured_story E text_content md =
     (case append_paragraph E [] (asc ''Personalized Study Material'') CustomTitle of
        Inl e \<Rightarrow> Inl e
      | Inr story1 \<Rightarrow>
          (case append_paragraph E story1 (meta_text E md) Metadata of
             Inl e \<Rightarrow> Inl e
           | Inr story2 \<Rightarrow>
               map_sum id fst
                 (add_lines E (story2 @ [Spacer 1 20], False) (split_chr LF text_content))))"

text \<open>
  The story of the \<open>except\<close> branch (lines 425 to 437): the title, a spacer, and for each
  non-blank chunk of the text without \<open>*\<close> and \<open>#\<close> a paragraph and a spacer; a chunk
  whose paragraph raises is skipped.
\<close>

definition fallback_chunk :: "env \<Rightarrow> flowable list \<Rightarrow> pystr \<Rightarrow> flowable list" where
  "fallback_chunk E story para =
     (if strip para \<noteq> []
      then (case append_paragraph E story (escape (strip para)) NormalText of
              Inl e \<Rightarrow> story
            | Inr story' \<Rightarrow> story' @ [Spacer 1 12])
      else story)"

definition fallback_story :: "env \<Rightarrow> pystr \<Rightarrow> error + flowable list" where
  "fallback_story E text_content =
     (case append_paragraph E [] (asc ''Personalized Study Material'') CustomTitle of
        Inl e \<Rightarrow> Inl e
      | Inr story1 \<Rightarrow>
          Inr (foldl (fallback_chunk E) (story1 @ [Spacer 1 20])
                 (split_blank (remove_markup text_content))))"

section \<open>The canvas: \<open>NumberedCanvas\<close>\<close>

text \<open>
  What is drawn on a page: a flowable of the story, or one of the calls of
  \<open>draw_page_number\<close>. Positions are in points (\<open>letter = (612, 792)\<close>, \<open>inch = 72\<close>).
\<close>

datatype draw_op =
  Flow flowable
  | SetFont pystr nat
  | SetFillColor pystr
  | DrawRightString int int pystr
  | DrawString int int pystr

text \<open>
  Of reportlab's \<open>canvas.Canvas\<close> the model keeps what the subclass relies on: the
  instance state that \<open>showPage\<close> of the subclass copies (\<open>dict(self.__dict__)\<close>) and
  \<open>save\<close> restores, namely the page number, which starts at 1, and the drawing code of
  the page in progress; \<open>_startPage\<close> increments the one and empties the other;
  \<open>Canvas.showPage\<close> adds the page in progress to the document and calls
  \<open>_startPage\<close>; \<open>Canvas.save\<close> calls \<open>self.showPage()\<close> when the page in progress is
  not empty, and writes the document. The document object is shared by all copies of the
  state, so restoring a state does not take pages back.
\<close>

record canvas =
  pageNumber :: nat
  page_code :: "draw_op list"

record numbered_canvas =
  current :: canvas
  saved_page_states :: "canvas list"
  doc_pages :: "draw_op list list"

definition startPage :: "canvas \<Rightarrow> canvas" where
  "startPage c = \<lparr>pageNumber = pageNumber c + 1, page_code = []\<rparr>"

definition new_canvas :: numbered_canvas where
  "new_canvas =
     \<lparr>current = \<lparr>pageNumber = 1, page_code = []\<rparr>, saved_page_states = [], doc_pages = []\<rparr>"

definition draw :: "draw_op \<Rightarrow> numbered_canvas \<Rightarrow> numbered_canvas" where
  "draw d nc = nc\<lparr>current := (current nc)\<lparr>page_code := page_code (current nc) @ [d]\<rparr>\<rparr>"

definition Canvas_showPage :: "numbered_canvas \<Rightarrow> numbered_canvas" where
  "Canvas_showPage nc =
     nc\<lparr>doc_pages := doc_pages nc @ [page_code (current nc)],
        current := startPage (current nc)\<rparr>"

text \<open>\<open>NumberedCanvas.showPage\<close>: the state is saved and no page is added.\<close>

definition showPage :: "numbered_canvas \<Rightarrow> numbered_canvas" where
  "showPage nc =
     nc\<lparr>saved_page_states := saved_page_states nc @ [current nc],
        current := startPage (current nc)\<rparr>"

definition draw_page_number :: "metadata \<Rightarrow> nat \<Rightarrow> numbered_canvas \<Rightarrow> numbered_canvas" where
  "draw_page_number md page_count nc =
     draw (DrawString 54 756
             (asc ''Study Material - ''
                @ (case md_material_type md of None \<Rightarrow> asc ''Notes'' | Some m \<Rightarrow> m)))
       (draw (DrawRightString 558 54
                (asc ''Page '' @ str_nat (pageNumber (current nc)) @ asc '' of ''
                   @ str_nat page_count))
          (draw (SetFillColor (asc ''grey'')) (draw (SetFont (asc ''Helvetica'') 9) nc)))"

text \<open>The four drawing calls of \<open>draw_page_number\<close> on page \<open>page\<close> of \<open>page_count\<close>.\<close>

definition footer_and_header :: "metadata \<Rightarrow> nat \<Rightarrow> nat \<Rightarrow> draw_op list" where
  "footer_and_header md page page_count =
     [SetFont (asc ''Helvetica'') 9,
      SetFillColor (asc ''grey''),
      DrawRightString 558 54 (asc ''Page '' @ str_nat page @ asc '' of '' @ str_nat page_count),
      DrawString 54 756
        (asc ''Study Material - ''
           @ (case md_material_type md of None \<Rightarrow> asc ''Notes'' | Some m \<Rightarrow> m))]"

text \<open>
  \<open>NumberedCanvas.save\<close>: for each saved state, in order, the state is restored, the
  footer and the header are drawn with the number of saved states as the total, and the
  page is added; then \<open>Canvas.save\<close>, whose \<open>self.showPage()\<close> is the subclass's. The
  result is the document written.
\<close>

definition stamp_page :: "metadata \<Rightarrow> nat \<Rightarrow> numbered_canvas \<Rightarrow> canvas \<Rightarrow> numbered_canvas" where
  "stamp_page md num_pages nc st =
     Canvas_showPage (draw_page_number md num_pages (nc\<lparr>current := st\<rparr>))"

definition save :: "metadata \<Rightarrow> numbered_canvas \<Rightarrow> draw_op list list" where
  "save md nc =
     (let num_pages = length (saved_page_states nc);
          nc' = foldl (stamp_page md num_pages) nc (saved_page_states nc);
          nc'' = (if page_code (current nc') \<noteq> [] then showPage nc' else nc')
      in doc_pages nc'')"

text \<open>The plain \<open>canvas.Canvas\<close> of the fallback build: \<open>showPage\<close> adds the page.\<close>

definition Canvas_save :: "numbered_canvas \<Rightarrow> draw_op list list" where
  "Canvas_save nc =
     doc_pages (if page_code (current nc) \<noteq> [] then Canvas_showPage nc else nc)"

text \<open>
  \<open>doc.build(story, canvasmaker)\<close>: reportlab lays the story out in pages, draws the
  flowables of each page on a canvas made by \<open>canvasmaker\<close>, calls \<open>showPage()\<close> at the
  end of each page and \<open>save()\<close> at the end of the document.
\<close>

datatype canvas_call = Draw draw_op | ShowPage

datatype canvasmaker = PlainCanvas | NumberedCanvas

definition call :: "canvasmaker \<Rightarrow> numbered_canvas \<Rightarrow> canvas_call \<Rightarrow> numbered_canvas" where
  "call cm nc c =
     (case c of
        Draw d \<Rightarrow> draw d nc
      | ShowPage \<Rightarrow> (case cm of PlainCanvas \<Rightarrow> Canvas_showPage nc | NumberedCanvas \<Rightarrow> showPage nc))"

definition run_canvas :: "canvasmaker \<Rightarrow> metadata \<Rightarrow> canvas_call list \<Rightarrow> draw_op list list" where
  "run_canvas cm md calls =
     (case cm of
        PlainCanvas \<Rightarrow> Canvas_save (foldl (call cm) new_canvas calls)
      | NumberedCanvas \<Rightarrow> save md (foldl (call cm) new_canvas calls))"

definition page_calls :: "flowable list list \<Rightarrow> canvas_call list" where
  "page_calls pages = concat (map (\<lambda>fs. map (\<lambda>f. Draw (Flow f)) fs @ [ShowPage]) pages)"

definition build ::
  "env \<Rightarrow> canvasmaker \<Rightarrow> metadata \<Rightarrow> flowable list \<Rightarrow> error + draw_op list list" where
  "build E cm md story =
     (case layout E story of
        Inl msg \<Rightarrow> Inl (ReportlabError msg)
      | Inr pages \<Rightarrow> Inr (run_canvas cm md (page_calls pages)))"

section \<open>\<open>create_professional_pdf\<close> and the endpoint\<close>

text \<open>
  The result is the document written to \<open>output_path\<close>, as its pages, or the exception
  that leaves the function. Only \<open>doc.build\<close> of the structured story stands in the
  \<open>try\<close> of line 420.
\<close>

definition create_professional_pdf ::
  "env \<Rightarrow> pystr \<Rightarrow> metadata \<Rightarrow> error + draw_op list list" where
  "create_professional_pdf E text_content md =
     (case structured_story E text_content md of
        Inl e \<Rightarrow> Inl e
      | Inr story \<Rightarrow>
          (case build E NumberedCanvas md story of
             Inr pdf \<Rightarrow> Inr pdf
           | Inl e \<Rightarrow>
               (case fallback_story E text_content of
                  Inl e' \<Rightarrow> Inl e'
                | Inr story' \<Rightarrow> build E PlainCanvas md story')))"

text \<open>Line 470: the comma-separated form field as a list of trimmed, non-blank topics.\<close>

definition weak_spots_list :: "pystr \<Rightarrow> pystr list" where
  "weak_spots_list weak_spots =
     (if weak_spots \<noteq> []
      then map strip (filter (\<lambda>spot. strip spot \<noteq> []) (split_chr 44 weak_spots))
      else [])"

text \<open>Lines 487 to 492: \<open>MATERIAL_TYPES.get(material_type, {}).get('name', 'Study Notes')\<close>.\<close>

definition endpoint_metadata :: "env \<Rightarrow> pystr list \<Rightarrow> pystr \<Rightarrow> pystr \<Rightarrow> metadata" where
  "endpoint_metadata E spots material_type difficulty_level =
     \<lparr>md_date = Some (today E),
      md_material_type =
        Some (case MATERIAL_TYPES material_type of
                None \<Rightarrow> asc ''Study Notes'' | Some m \<Rightarrow> name m),
      md_weak_spots = Some spots,
      md_difficulty = Some difficulty_level\<rparr>"

definition endswith :: "pystr \<Rightarrow> pystr \<Rightarrow> bool" where
  "endswith s p \<longleftrightarrow> startswith (rev s) (rev p)"

text \<open>
  \<open>generate_study_material_endpoint\<close>: the pages of the file it answers with, or the
  \<open>HTTPException\<close> it raises. \<open>str(e)\<close> of a reportlab exception is its message.
\<close>

definition generate_study_material_endpoint ::
  "env \<Rightarrow> pystr \<Rightarrow> pystr \<Rightarrow> pystr \<Rightarrow> pystr \<Rightarrow> pystr \<Rightarrow> pystr \<Rightarrow> error + draw_op list list" where
  "generate_study_material_endpoint E filename file_contents weak_spots material_type
       difficulty_level additional_instructions =
     (if \<not> endswith filename (asc ''.pptx'')
      then Inl (HTTPException 400 (asc ''Please upload a .pptx file''))
      else
        (case extract_text_with_structure E file_contents of
           Inl e \<Rightarrow> Inl e
         | Inr ppt_content \<Rightarrow>
             (if strip (full_text ppt_content) = []
              then Inl (HTTPException 400 (asc ''PowerPoint appears to be empty''))
              else
                (case generate_targeted_study_material E ppt_content
                        (weak_spots_list weak_spots) material_type difficulty_level
                        additional_instructions of
                   Inl (HTTPException status detail) \<Rightarrow>
                     Inl (HTTPException 500
                            (asc ''Generation failed: '' @ http_exception_str E status detail))
                 | Inl (ReportlabError msg) \<Rightarrow>
                     Inl (HTTPException 500 (asc ''Generation failed: '' @ msg))
                 | Inr generated_content \<Rightarrow>
                     (case create_professional_pdf E generated_content
                             (endpoint_metadata E (weak_spots_list weak_spots) material_type
                                difficulty_level) of
                        Inl (HTTPException status detail) \<Rightarrow>
                          Inl (HTTPException 500
                                 (asc ''PDF creation failed: ''
                                    @ http_exception_str E status detail))
                      | Inl (ReportlabError msg) \<Rightarrow>
                          Inl (HTTPException 500 (asc ''PDF creation failed: '' @ msg))
                      | Inr pdf \<Rightarrow> Inr pdf)))))"

section \<open>Example inputs\<close>

text \<open>
  An environment for concrete runs: ASCII-only Unicode tables, a model that echoes its
  prompt, a paragraph constructor that accepts every text and a layout that puts the
  whole story on one page.
\<close>

definition example_env :: env where
  "example_env =
     \<lparr>lower_u = (\<lambda>s. s), isdigit_u = (\<lambda>c. False), today = asc ''January 01, 2025'',
      api_key = True, presentation = (\<lambda>b. Inr []), generate_content = (\<lambda>p. Inr p),
      paragraph_error = (\<lambda>t st. None), layout = (\<lambda>story. Inr [story]),
      http_exception_str = (\<lambda>status detail. detail)\<rparr>"

text \<open>
  Variations: no metadata; a paragraph constructor that rejects a text holding the
  character NUL; a layout that fails on a story of more than four flowables; a layout that
  breaks the page after the third flowable.
\<close>

definition no_metadata :: metadata where
  "no_metadata = \<lparr>md_date = None, md_material_type = None, md_weak_spots = None,
                   md_difficulty = None\<rparr>"

definition strict_env :: env where
  "strict_env = example_env\<lparr>paragraph_error :=
     (\<lambda>t st. if 0 \<in> set t then Some (asc ''invalid character'') else None)\<rparr>"

definition small_env :: env where
  "small_env = example_env\<lparr>layout :=
     (\<lambda>story. if length story > 4 then Inl (asc ''LayoutError'') else Inr [story])\<rparr>"

definition two_page_env :: env where
  "two_page_env = example_env\<lparr>layout := (\<lambda>story. Inr [take 3 story, drop 3 story])\<rparr>"




text \<open>A title placeholder that holds one space.\<close>

definition whitespace_title :: shape where
  "whitespace_title =
     \<lparr>has_text_frame = True, is_title = True, has_text = True,
      shape_text = asc '' '', paragraphs = [asc '' '']\<rparr>"

section \<open>Properties of the inline markup translation\<close>

lemma takeWhile_run:
  "star \<notin> set run \<Longrightarrow> takeWhile (\<lambda>x. x \<noteq> star) (run @ star # post) = run"
  by (induction run) auto

lemma dropWhile_run:
  "star \<notin> set run \<Longrightarrow> dropWhile (\<lambda>x. x \<noteq> star) (run @ star # post) = star # post"
  by (induction run) auto

lemma sub_bold_span:
  assumes "star \<notin> set pre" "star \<notin> set run" "run \<noteq> []"
  shows "sub_bold (pre @ [star, star] @ run @ [star, star] @ post)
           = pre @ asc ''<b>'' @ run @ asc ''</b>'' @ sub_bold post"
  using assms(1)
proof (induction pre)
  case Nil
  show ?case using assms(2,3) by (simp add: takeWhile_run dropWhile_run)
next
  case (Cons p ps)
  then show ?case by simp
qed

lemma sub_italic_span:
  assumes "star \<notin> set pre" "star \<notin> set run" "run \<noteq> []" "take 1 post \<noteq> [star]"
    and "pre = [] \<longrightarrow> \<not> prev"
  shows "sub_italic prev (pre @ [star] @ run @ [star] @ post)
           = pre @ asc ''<i>'' @ run @ asc ''</i>'' @ sub_italic True post"
  using assms(1,5)
proof (induction pre arbitrary: prev)
  case Nil
  then show ?case using assms(2,3,4) by (simp add: takeWhile_run dropWhile_run)
next
  case (Cons p ps)
  then show ?case by simp
qed

lemma sub_bold_plain: "star \<notin> set s \<Longrightarrow> sub_bold s = s"
  by (induction s) auto

lemma sub_italic_plain: "star \<notin> set s \<Longrightarrow> sub_italic prev s = s"
  by (induction s arbitrary: prev) auto

lemma escape_star: "star \<in> set (escape s) \<longleftrightarrow> star \<in> set s"
  by (induction s) (auto simp: escape_def escape_chr_def)

lemma sub_italic_run:
  "star \<notin> set run \<Longrightarrow> run \<noteq> [] \<Longrightarrow> sub_italic prev (run @ rest) = run @ sub_italic False rest"
proof (induction run arbitrary: prev)
  case Nil
  then show ?case by simp
next
  case (Cons c run)
  show ?case
  proof (cases "run = []")
    case True
    with Cons.prems show ?thesis by simp
  next
    case False
    with Cons show ?thesis by simp
  qed
qed

lemma sub_italic_star_before:
  assumes "star \<notin> set run" "run \<noteq> []"
  shows "sub_italic prev ([star, star] @ run @ [star] @ post)
           = [star, star] @ run @ sub_italic False ([star] @ post)"
proof -
  have "sub_italic prev ([star, star] @ run @ [star] @ post)
          = star # sub_italic True (star # run @ [star] @ post)"
    by simp
  also have "\<dots> = star # star # sub_italic True (run @ [star] @ post)"
    by simp
  also have "\<dots> = star # star # run @ sub_italic False ([star] @ post)"
    using sub_italic_run [OF assms] by simp
  finally show ?thesis by simp
qed

lemma sub_italic_star_after:
  assumes "star \<notin> set run" "run \<noteq> []"
  shows "sub_italic False ([star] @ run @ [star, star] @ post)
           = [star] @ run @ [star, star] @ sub_italic True post"
proof -
  have "sub_italic False ([star] @ run @ [star, star] @ post)
          = star # sub_italic True (run @ [star, star] @ post)"
    using assms by (simp add: takeWhile_run dropWhile_run)
  also have "\<dots> = star # run @ sub_italic False ([star, star] @ post)"
    using sub_italic_run [OF assms] by simp
  also have "\<dots> = star # run @ star # star # sub_italic True post"
    by simp
  finally show ?thesis by simp
qed

text \<open>
  Claim C6. The translation escapes the XML characters first, then turns \<open>**text**\<close>
  into a bold span, then a single-asterisk \<open>*text*\<close> with no asterisk next to it into
  an italic span. A text without asterisks is only escaped. A bold span behind an
  asterisk-free prefix is rewritten and the scan goes on behind it. An italic span is
  rewritten when no asterisk stands before its opening asterisk nor behind its closing
  one; an asterisk that follows an asterisk never opens a span (the lookbehind), and a
  span whose closing asterisk is followed by an asterisk is left as it is (the
  lookahead). On \<open>**bold** and *italic*\<close> the result is
  \<open><b>bold</b> and <i>italic</i>\<close> with no asterisk left, \<open>***x***\<close> becomes one bold
  span inside one italic span, and \<open>**a*\<close> and \<open>*a**\<close> are unchanged.
\<close>

theorem convert_markdown_to_html_translation:
  "convert_markdown_to_html t = sub_italic False (sub_bold (escape t))
   \<and> (star \<notin> set t \<longrightarrow> convert_markdown_to_html t = escape t)
   \<and> (star \<notin> set pre \<and> star \<notin> set run \<and> run \<noteq> [] \<longrightarrow>
        sub_bold (pre @ [star, star] @ run @ [star, star] @ post)
          = pre @ asc ''<b>'' @ run @ asc ''</b>'' @ sub_bold post)
   \<and> (star \<notin> set pre \<and> star \<notin> set run \<and> run \<noteq> [] \<and> take 1 post \<noteq> [star] \<longrightarrow>
        sub_italic False (pre @ [star] @ run @ [star] @ post)
          = pre @ asc ''<i>'' @ run @ asc ''</i>'' @ sub_italic True post)
   \<and> sub_italic True (star # t) = star # sub_italic True t
   \<and> (star \<notin> set run \<and> run \<noteq> [] \<longrightarrow>
        sub_italic prev ([star, star] @ run @ [star] @ post)
          = [star, star] @ run @ sub_italic False ([star] @ post))
   \<and> (star \<notin> set run \<and> run \<noteq> [] \<longrightarrow>
        sub_italic False ([star] @ run @ [star, star] @ post)
          = [star] @ run @ [star, star] @ sub_italic True post)
   \<and> convert_markdown_to_html (asc ''**bold** and *italic*'')
         = asc ''<b>bold</b> and <i>italic</i>''
   \<and> star \<notin> set (convert_markdown_to_html (asc ''**bold** and *italic*''))
   \<and> convert_markdown_to_html (asc ''***x***'') = asc ''<i><b>x</b></i>''
   \<and> convert_markdown_to_html (asc ''**a*'') = asc ''**a*''
   \<and> convert_markdown_to_html (asc ''*a**'') = asc ''*a**''
   \<and> convert_markdown_to_html (asc ''2 < 3 & x*a*y'') = asc ''2 &lt; 3 &amp; x<i>a</i>y''"
proof -
  have plain: "star \<notin> set t \<longrightarrow> convert_markdown_to_html t = escape t"
    by (simp add: convert_markdown_to_html_def escape_star sub_bold_plain sub_italic_plain)
  have bold: "star \<notin> set pre \<and> star \<notin> set run \<and> run \<noteq> [] \<longrightarrow>
        sub_bold (pre @ [star, star] @ run @ [star, star] @ post)
          = pre @ asc ''<b>'' @ run @ asc ''</b>'' @ sub_bold post"
    using sub_bold_span [of pre run post] by blast
  have italic: "star \<notin> set pre \<and> star \<notin> set run \<and> run \<noteq> [] \<and> take 1 post \<noteq> [star] \<longrightarrow>
        sub_italic False (pre @ [star] @ run @ [star] @ post)
          = pre @ asc ''<i>'' @ run @ asc ''</i>'' @ sub_italic True post"
    using sub_italic_span [of pre run post False] by blast
  have behind: "sub_italic True (star # t) = star # sub_italic True t"
    by simp
  have before: "star \<notin> set run \<and> run \<noteq> [] \<longrightarrow>
        sub_italic prev ([star, star] @ run @ [star] @ post)
          = [star, star] @ run @ sub_italic False ([star] @ post)"
    using sub_italic_star_before [of run prev post] by blast
  have after: "star \<notin> set run \<and> run \<noteq> [] \<longrightarrow>
        sub_italic False ([star] @ run @ [star, star] @ post)
          = [star] @ run @ [star, star] @ sub_italic True post"
    using sub_italic_star_after [of run post] by blast
  have ex1: "convert_markdown_to_html (asc ''**bold** and *italic*'')
         = asc ''<b>bold</b> and <i>italic</i>''"
    by (simp add: convert_markdown_to_html_def escape_def escape_chr_def)
  have ex2: "convert_markdown_to_html (asc ''***x***'') = asc ''<i><b>x</b></i>''"
    by (simp add: convert_markdown_to_html_def escape_def escape_chr_def)
  have ex3: "convert_markdown_to_html (asc ''**a*'') = asc ''**a*''"
    by (simp add: convert_markdown_to_html_def escape_def escape_chr_def)
  have ex4: "convert_markdown_to_html (asc ''*a**'') = asc ''*a**''"
    by (simp add: convert_markdown_to_html_def escape_def escape_chr_def)
  have ex5: "convert_markdown_to_html (asc ''2 < 3 & x*a*y'') = asc ''2 &lt; 3 &amp; x<i>a</i>y''"
    by (simp add: convert_markdown_to_html_def escape_def escape_chr_def)
  have nostar: "star \<notin> set (convert_markdown_to_html (asc ''**bold** and *italic*''))"
    unfolding ex1 by simp
  have pipe: "convert_markdown_to_html t = sub_italic False (sub_bold (escape t))"
    by (simp add: convert_markdown_to_html_def)
  show ?thesis
    using pipe plain bold italic behind before after ex1 nostar ex2 ex3 ex4 ex5 by blast
qed

theorem convert_markdown_to_html_translation_witness:
  "star \<notin> set (asc ''a<b & c'')
   \<and> convert_markdown_to_html (asc ''a<b & c'') = asc ''a&lt;b &amp; c''
   \<and> star \<notin> set (asc ''x '') \<and> star \<notin> set (asc ''bold'') \<and> asc ''bold'' \<noteq> []
   \<and> sub_bold (asc ''x **bold** y'') = asc ''x <b>bold</b> y''
   \<and> take 1 (asc '' y'') \<noteq> [star]
   \<and> sub_italic False (asc ''x *bold* y'') = asc ''x <i>bold</i> y''
   \<and> sub_italic False (asc ''**bold* y'') = asc ''**bold* y''
   \<and> sub_italic False (asc ''*bold** y'') = asc ''*bold** y''"
  using convert_markdown_to_html_translation
          [where t = "asc ''a<b & c''" and pre = "asc ''x ''" and run = "asc ''bold''"
             and post = "asc '' y''" and prev = False]
  by (simp add: escape_def escape_chr_def)

section \<open>Properties of the prompt\<close>

lemma strip_Nil: "strip [] = []"
  by (simp add: strip_def)

lemma strip_nonempty: "strip s \<noteq> [] \<Longrightarrow> s \<noteq> []"
  by (auto simp: strip_def)

lemma contains_prefix: "contains (p @ ys) p"
proof (cases "p @ ys")
  case Nil
  then show ?thesis by simp
next
  case (Cons a l)
  have "startswith (p @ ys) p" by (simp add: startswith_def)
  then show ?thesis by (simp add: Cons)
qed

lemma contains_append: "contains (xs @ p @ ys) p"
proof (induction xs)
  case Nil
  show ?case using contains_prefix [of p ys] by simp
next
  case (Cons x xs)
  then show ?case by simp
qed

lemma weak_spots_text_Nil: "weak_spots_text [] = []"
  by (simp add: weak_spots_text_def)




lemma contains_split: "contains s w \<Longrightarrow> \<exists>a b. s = a @ w @ b"
proof (induction s)
  case Nil
  then show ?case by simp
next
  case (Cons c cs)
  show ?case
  proof (cases "startswith (c # cs) w")
    case True
    then have "c # cs = [] @ w @ drop (length w) (c # cs)"
      unfolding startswith_def by (metis append_Nil append_take_drop_id)
    then show ?thesis by blast
  next
    case False
    with Cons.prems have "contains cs w" by simp
    then obtain a b where "cs = a @ w @ b" using Cons.IH by blast
    then have "c # cs = (c # a) @ w @ b" by simp
    then show ?thesis by blast
  qed
qed

lemma contains_iff: "contains s w \<longleftrightarrow> (\<exists>a b. s = a @ w @ b)"
  using contains_split contains_append by blast

lemma contains_concat: "a @ w @ b \<in> set xss \<Longrightarrow> contains (concat xss) w"
proof -
  assume "a @ w @ b \<in> set xss"
  then obtain ys zs where "xss = ys @ (a @ w @ b) # zs" by (meson split_list)
  then have "concat xss = (concat ys @ a) @ w @ (b @ concat zs)" by simp
  then show ?thesis using contains_append by metis
qed

lemma contains_appendI1: "contains s w \<Longrightarrow> contains (s @ t) w"
  unfolding contains_iff by (metis append.assoc)

lemma contains_appendI2: "contains t w \<Longrightarrow> contains (s @ t) w"
  unfolding contains_iff by (metis append.assoc)

lemma prompt_head_contains: "contains (prompt_head ppt_content wst config dl ai) wst"
  unfolding prompt_head_def
  by (rule contains_concat [of "asc ''        ''" wst "asc ''\<newline>''"]) simp

lemma prompt_contains_wst:
  "contains (prompt ppt_content weak_spots mt dl ai) (weak_spots_text weak_spots)"
  unfolding prompt_def by (intro contains_appendI1 prompt_head_contains)

lemma weak_spots_text_nonblank:
  assumes "\<exists>spot \<in> set weak_spots. strip spot \<noteq> []"
  shows "weak_spots_text weak_spots = weak_spots_block weak_spots"
proof -
  from assms obtain spot where s: "spot \<in> set weak_spots" "strip spot \<noteq> []" by blast
  then have "spot \<noteq> []" using strip_nonempty by blast
  with s(1) have "weak_spots \<noteq> [] \<and> (\<exists>spot \<in> set weak_spots. spot \<noteq> [])" by auto
  then show ?thesis by (simp add: weak_spots_text_def)
qed

lemma weak_spots_text_empty:
  "\<forall>spot \<in> set weak_spots. spot = [] \<Longrightarrow> weak_spots_text weak_spots = []"
  by (simp add: weak_spots_text_def)

lemma strip_idem: "strip (strip s) = strip s"
proof -
  let ?a = "dropWhile py_isspace s"
  let ?d = "dropWhile py_isspace (rev ?a)"
  have t: "strip s = rev ?d" by (simp add: strip_def)
  have a: "?a = rev ?d @ rev (takeWhile py_isspace (rev ?a))"
    by (metis rev_append rev_rev_ident takeWhile_dropWhile_id)
  have "dropWhile py_isspace (rev ?d) = rev ?d"
  proof (cases "rev ?d = []")
    case True
    show ?thesis unfolding True by simp
  next
    case False
    then have "hd (rev ?d) = hd ?a" using a by (metis hd_append2)
    moreover have "?a \<noteq> []" using False a by (metis append_is_Nil_conv)
    then have "\<not> py_isspace (hd ?a)" by (rule hd_dropWhile)
    ultimately show ?thesis by (simp add: dropWhile_eq_self_iff)
  qed
  then have "strip (rev ?d) = rev (dropWhile py_isspace ?d)"
    by (simp add: strip_def)
  also have "\<dots> = rev ?d" by simp
  finally show ?thesis unfolding t .
qed

lemma weak_spots_list_trimmed:
  "spot \<in> set (weak_spots_list w) \<Longrightarrow> strip spot = spot \<and> spot \<noteq> []"
  by (auto simp: weak_spots_list_def strip_idem split: if_splits)

lemma weak_spots_block_nonempty: "weak_spots_block weak_spots \<noteq> []"
  by (simp add: weak_spots_block_def)

text \<open>
  Claim C1. The composer is called with the list that line 470 makes of the form field,
  whose entries are trimmed and not empty; the statement covers every list of trimmed
  entries. For such a list the weak-spots block is in the prompt if some entry is
  non-blank after trimming, and otherwise the weak-spots text is empty and the prompt is
  that of the empty list. The block lists, in order, every trimmed non-blank entry, each
  in double quotes, joined by a comma and a space, and ends with the seven numbered
  directives.
\<close>

theorem weak_spots_block_emitted:
  "(\<forall>spot \<in> set (weak_spots_list w). strip spot = spot \<and> spot \<noteq> [])
   \<and> ((\<forall>spot \<in> set weak_spots. strip spot = spot) \<longrightarrow>
        ((\<exists>spot \<in> set weak_spots. strip spot \<noteq> []) \<longrightarrow>
           weak_spots_text weak_spots = weak_spots_block weak_spots
           \<and> contains (prompt ppt_content weak_spots mt dl ai) (weak_spots_block weak_spots))
        \<and> (\<not> (\<exists>spot \<in> set weak_spots. strip spot \<noteq> []) \<longrightarrow>
           weak_spots_text weak_spots = []
           \<and> prompt ppt_content weak_spots mt dl ai = prompt ppt_content [] mt dl ai)
        \<and> weak_spots_block weak_spots =
            asc ''\<newline>        CRITICAL STUDENT WEAK SPOTS:\<newline>''
            @ asc ''        The student particularly struggles with the following concepts:\<newline>''
            @ asc ''        ''
            @ join (asc '', '')
                (map (\<lambda>spot. [34] @ strip spot @ [34])
                   (filter (\<lambda>spot. strip spot \<noteq> []) weak_spots))
            @ asc ''\<newline>        \<newline>''
            @ weak_spots_directives @ asc ''        '')
   \<and> weak_spots_block weak_spots \<noteq> []
   \<and> weak_spots_directives =
       asc ''        IMPORTANT INSTRUCTIONS FOR WEAK SPOTS:\<newline>''
       @ asc ''        1. Provide EXTRA detailed explanations for these topics\<newline>''
       @ asc ''        2. Include multiple examples for each weak spot\<newline>''
       @ asc ''        3. Break down complex concepts into simpler steps\<newline>''
       @ asc ''        4. Explain prerequisites needed to understand these topics\<newline>''
       @ asc ''        5. Include common misconceptions and clarifications\<newline>''
       @ asc ''        6. Add practice questions specifically targeting these areas\<newline>''
       @ asc ''        7. Use analogies and real-world applications\<newline>''"
proof -
  have t: "\<forall>spot \<in> set (weak_spots_list w). strip spot = spot \<and> spot \<noteq> []"
    using weak_spots_list_trimmed by blast
  have m: "(\<forall>spot \<in> set weak_spots. strip spot = spot) \<longrightarrow>
        ((\<exists>spot \<in> set weak_spots. strip spot \<noteq> []) \<longrightarrow>
           weak_spots_text weak_spots = weak_spots_block weak_spots
           \<and> contains (prompt ppt_content weak_spots mt dl ai) (weak_spots_block weak_spots))
        \<and> (\<not> (\<exists>spot \<in> set weak_spots. strip spot \<noteq> []) \<longrightarrow>
           weak_spots_text weak_spots = []
           \<and> prompt ppt_content weak_spots mt dl ai = prompt ppt_content [] mt dl ai)
        \<and> weak_spots_block weak_spots =
            asc ''\<newline>        CRITICAL STUDENT WEAK SPOTS:\<newline>''
            @ asc ''        The student particularly struggles with the following concepts:\<newline>''
            @ asc ''        ''
            @ join (asc '', '')
                (map (\<lambda>spot. [34] @ strip spot @ [34])
                   (filter (\<lambda>spot. strip spot \<noteq> []) weak_spots))
            @ asc ''\<newline>        \<newline>''
            @ weak_spots_directives @ asc ''        ''"
  proof (intro impI)
    assume tr: "\<forall>spot \<in> set weak_spots. strip spot = spot"
    have a: "(\<exists>spot \<in> set weak_spots. strip spot \<noteq> []) \<longrightarrow>
           weak_spots_text weak_spots = weak_spots_block weak_spots
           \<and> contains (prompt ppt_content weak_spots mt dl ai) (weak_spots_block weak_spots)"
    proof (intro impI)
      assume h: "\<exists>spot \<in> set weak_spots. strip spot \<noteq> []"
      have e: "weak_spots_text weak_spots = weak_spots_block weak_spots"
        using weak_spots_text_nonblank [OF h] .
      show "weak_spots_text weak_spots = weak_spots_block weak_spots
        \<and> contains (prompt ppt_content weak_spots mt dl ai) (weak_spots_block weak_spots)"
        using e prompt_contains_wst [of ppt_content weak_spots mt dl ai] by metis
    qed
    have b: "\<not> (\<exists>spot \<in> set weak_spots. strip spot \<noteq> []) \<longrightarrow>
           weak_spots_text weak_spots = []
           \<and> prompt ppt_content weak_spots mt dl ai = prompt ppt_content [] mt dl ai"
    proof (intro impI)
      assume "\<not> (\<exists>spot \<in> set weak_spots. strip spot \<noteq> [])"
      with tr have "\<forall>spot \<in> set weak_spots. spot = []" by metis
      then have "weak_spots_text weak_spots = []" by (rule weak_spots_text_empty)
      then show "weak_spots_text weak_spots = []
           \<and> prompt ppt_content weak_spots mt dl ai = prompt ppt_content [] mt dl ai"
        using weak_spots_text_Nil by (simp add: prompt_def)
    qed
    have q: "map (\<lambda>spot. [34] @ spot @ [34]) (filter (\<lambda>spot. strip spot \<noteq> []) weak_spots)
           = map (\<lambda>spot. [34] @ strip spot @ [34]) (filter (\<lambda>spot. strip spot \<noteq> []) weak_spots)"
      using tr by (intro map_cong) auto
    have c: "weak_spots_block weak_spots =
            asc ''\<newline>        CRITICAL STUDENT WEAK SPOTS:\<newline>''
            @ asc ''        The student particularly struggles with the following concepts:\<newline>''
            @ asc ''        ''
            @ join (asc '', '')
                (map (\<lambda>spot. [34] @ strip spot @ [34])
                   (filter (\<lambda>spot. strip spot \<noteq> []) weak_spots))
            @ asc ''\<newline>        \<newline>''
            @ weak_spots_directives @ asc ''        ''"
      unfolding q [symmetric] by (simp add: weak_spots_block_def quoted_spots_def)
    show "((\<exists>spot \<in> set weak_spots. strip spot \<noteq> []) \<longrightarrow>
           weak_spots_text weak_spots = weak_spots_block weak_spots
           \<and> contains (prompt ppt_content weak_spots mt dl ai) (weak_spots_block weak_spots))
        \<and> (\<not> (\<exists>spot \<in> set weak_spots. strip spot \<noteq> []) \<longrightarrow>
           weak_spots_text weak_spots = []
           \<and> prompt ppt_content weak_spots mt dl ai = prompt ppt_content [] mt dl ai)
        \<and> weak_spots_block weak_spots =
            asc ''\<newline>        CRITICAL STUDENT WEAK SPOTS:\<newline>''
            @ asc ''        The student particularly struggles with the following concepts:\<newline>''
            @ asc ''        ''
            @ join (asc '', '')
                (map (\<lambda>spot. [34] @ strip spot @ [34])
                   (filter (\<lambda>spot. strip spot \<noteq> []) weak_spots))
            @ asc ''\<newline>        \<newline>''
            @ weak_spots_directives @ asc ''        ''"
      using a b c by blast
  qed
  have d: "weak_spots_directives =
       asc ''        IMPORTANT INSTRUCTIONS FOR WEAK SPOTS:\<newline>''
       @ asc ''        1. Provide EXTRA detailed explanations for these topics\<newline>''
       @ asc ''        2. Include multiple examples for each weak spot\<newline>''
       @ asc ''        3. Break down complex concepts into simpler steps\<newline>''
       @ asc ''        4. Explain prerequisites needed to understand these topics\<newline>''
       @ asc ''        5. Include common misconceptions and clarifications\<newline>''
       @ asc ''        6. Add practice questions specifically targeting these areas\<newline>''
       @ asc ''        7. Use analogies and real-world applications\<newline>''"
    by (simp add: weak_spots_directives_def)
  show ?thesis using t m weak_spots_block_nonempty [of weak_spots] d by blast
qed

theorem weak_spots_block_emitted_witness:
  "weak_spots_list (asc ''Point A, ,B '') = [asc ''Point A'', asc ''B'']
   \<and> strip (asc ''Point A'') = asc ''Point A'' \<and> strip (asc ''B'') = asc ''B''
   \<and> weak_spots_text [asc ''Point A'', asc ''B''] = weak_spots_block [asc ''Point A'', asc ''B'']
   \<and> contains (prompt \<lparr>total_slides = 1, slides = [], full_text = asc ''Slide 1: Intro''\<rparr>
         [asc ''Point A'', asc ''B''] (asc ''pointwise'') (asc ''beginner'') [])
        (weak_spots_block [asc ''Point A'', asc ''B''])
   \<and> join (asc '', '')
        (map (\<lambda>spot. [34] @ strip spot @ [34])
           (filter (\<lambda>spot. strip spot \<noteq> []) [asc ''Point A'', asc ''B'']))
      = [34] @ asc ''Point A'' @ [34] @ asc '', '' @ [34] @ asc ''B'' @ [34]
   \<and> weak_spots_list (asc '' , '') = []
   \<and> weak_spots_text [] = []"
proof -
  have l: "weak_spots_list (asc ''Point A, ,B '') = [asc ''Point A'', asc ''B'']"
    by (simp add: weak_spots_list_def strip_def py_isspace_def)
  have l': "weak_spots_list (asc '' , '') = []"
    by (simp add: weak_spots_list_def strip_def py_isspace_def)
  have s: "strip (asc ''Point A'') = asc ''Point A'' \<and> strip (asc ''B'') = asc ''B''"
    by (simp add: strip_def py_isspace_def)
  then have tr: "\<forall>spot \<in> set [asc ''Point A'', asc ''B'']. strip spot = spot"
    by simp
  have h: "\<exists>spot \<in> set [asc ''Point A'', asc ''B'']. strip spot \<noteq> []"
    using s by simp
  have tr': "\<forall>spot \<in> set ([]::pystr list). strip spot = spot"
    by simp
  have h': "\<not> (\<exists>spot \<in> set ([]::pystr list). strip spot \<noteq> [])"
    by simp
  have j: "join (asc '', '')
        (map (\<lambda>spot. [34] @ strip spot @ [34])
           (filter (\<lambda>spot. strip spot \<noteq> []) [asc ''Point A'', asc ''B'']))
      = [34] @ asc ''Point A'' @ [34] @ asc '', '' @ [34] @ asc ''B'' @ [34]"
    by (simp add: strip_def py_isspace_def)
  show ?thesis
    using l l' s tr h tr' h' j
      weak_spots_block_emitted
          [of _ "[asc ''Point A'', asc ''B'']"
              "\<lparr>total_slides = 1, slides = [], full_text = asc ''Slide 1: Intro''\<rparr>"
              "asc ''pointwise''" "asc ''beginner''" "[]"]
      weak_spots_block_emitted [of _ "[]"]
    by blast
qed

lemma MATERIAL_TYPES_comprehensive: "MATERIAL_TYPES (asc ''comprehensive'') = Some comprehensive"
  by (simp add: MATERIAL_TYPES_def)

text \<open>
  Claim C9, as the code has it. For a key that is not in the catalog the composer uses
  the \<open>comprehensive\<close> entry: the prompt, and the whole call, are those of the key
  \<open>comprehensive\<close>, with its display name and its style directive. The endpoint's
  metadata does not: its \<open>material_type\<close> is the label \<open>Study Notes\<close>, which the
  metadata paragraph of the document shows.
\<close>

theorem unknown_material_type:
  assumes "MATERIAL_TYPES material_type = None"
  shows "MATERIAL_TYPES (asc ''comprehensive'') = Some comprehensive
     \<and> material_config material_type = comprehensive
     \<and> prompt ppt_content weak_spots material_type dl ai
         = prompt ppt_content weak_spots (asc ''comprehensive'') dl ai
     \<and> generate_targeted_study_material E ppt_content weak_spots material_type dl ai
         = generate_targeted_study_material E ppt_content weak_spots (asc ''comprehensive'') dl ai
     \<and> contains (prompt ppt_content weak_spots material_type dl ai)
         (asc ''        MATERIAL TYPE: Comprehensive Study Notes\<newline>'')
     \<and> contains (prompt ppt_content weak_spots material_type dl ai)
         (asc ''        STYLE INSTRUCTION: Create extremely detailed and comprehensive notes with thorough explanations, multiple examples, and deep conceptual understanding.\<newline>'')
     \<and> md_material_type (endpoint_metadata E spots material_type dl) = Some (asc ''Study Notes'')
     \<and> contains (meta_text E (endpoint_metadata E spots material_type dl))
         (asc ''Material Type: Study Notes<br/>'')"
proof -
  have cfg: "material_config material_type = comprehensive"
    using assms by (simp add: material_config_def)
  have cfg': "material_config (asc ''comprehensive'') = comprehensive"
    using MATERIAL_TYPES_comprehensive by (simp add: material_config_def)
  have p: "prompt ppt_content weak_spots material_type dl ai
         = prompt ppt_content weak_spots (asc ''comprehensive'') dl ai"
    unfolding prompt_def cfg cfg' ..
  have g: "generate_targeted_study_material E ppt_content weak_spots material_type dl ai
         = generate_targeted_study_material E ppt_content weak_spots (asc ''comprehensive'') dl ai"
    unfolding generate_targeted_study_material_def p ..
  have n: "contains (prompt_head ppt_content wst comprehensive dl ai)
         (asc ''        MATERIAL TYPE: Comprehensive Study Notes\<newline>'')" for wst
    unfolding prompt_head_def
    by (rule contains_concat [of "[]" _ "[]"]) (simp add: comprehensive_def)
  have m: "contains (prompt_head ppt_content wst comprehensive dl ai)
         (asc ''        STYLE INSTRUCTION: Create extremely detailed and comprehensive notes with thorough explanations, multiple examples, and deep conceptual understanding.\<newline>'')" for wst
    unfolding prompt_head_def
    by (rule contains_concat [of "[]" _ "[]"]) (simp add: comprehensive_def)
  have md: "md_material_type (endpoint_metadata E spots material_type dl) = Some (asc ''Study Notes'')"
    using assms by (simp add: endpoint_metadata_def)
  have mt: "contains (meta_text E (endpoint_metadata E spots material_type dl))
         (asc ''Material Type: Study Notes<br/>'')"
  proof -
    have "meta_text E (endpoint_metadata E spots material_type dl)
        = (asc ''Generated on '' @ today E @ asc ''<br/>'') @ asc ''Material Type: Study Notes<br/>''
          @ (if spots = [] then [] else asc ''Focus Areas: '' @ join (asc '', '') (take 3 spots))"
      using assms by (simp add: meta_text_def endpoint_metadata_def)
    then show ?thesis using contains_append by metis
  qed
  have n': "contains (prompt ppt_content weak_spots material_type dl ai)
         (asc ''        MATERIAL TYPE: Comprehensive Study Notes\<newline>'')"
    unfolding prompt_def cfg by (rule contains_appendI1 [OF n])
  have m': "contains (prompt ppt_content weak_spots material_type dl ai)
         (asc ''        STYLE INSTRUCTION: Create extremely detailed and comprehensive notes with thorough explanations, multiple examples, and deep conceptual understanding.\<newline>'')"
    unfolding prompt_def cfg by (rule contains_appendI1 [OF m])
  show ?thesis
    using MATERIAL_TYPES_comprehensive cfg p g md mt n' m' by blast
qed

theorem unknown_material_type_witness:
  "MATERIAL_TYPES (asc ''flashcards'') = None
   \<and> material_config (asc ''flashcards'') = comprehensive
   \<and> name (material_config (asc ''flashcards'')) = asc ''Comprehensive Study Notes''
   \<and> md_material_type (endpoint_metadata example_env [] (asc ''flashcards'') (asc ''beginner''))
       = Some (asc ''Study Notes'')"
proof -
  have h: "MATERIAL_TYPES (asc ''flashcards'') = None"
    by (simp add: MATERIAL_TYPES_def)
  show ?thesis
    using h unknown_material_type [OF h, where E = example_env and spots = "[]"
                 and dl = "asc ''beginner''"]
    by (simp add: comprehensive_def)
qed

text \<open>
  The claim as stated fails for the document's metadata: for the unknown key
  \<open>flashcards\<close> it shows \<open>Study Notes\<close>, which is not the display name of the
  \<open>comprehensive\<close> entry.
\<close>

theorem unknown_material_type_counterexample:
  "MATERIAL_TYPES (asc ''flashcards'') = None
   \<and> md_material_type (endpoint_metadata example_env [] (asc ''flashcards'') (asc ''beginner''))
       = Some (asc ''Study Notes'')
   \<and> name comprehensive = asc ''Comprehensive Study Notes''
   \<and> asc ''Study Notes'' \<noteq> name comprehensive"
  by (simp add: MATERIAL_TYPES_def endpoint_metadata_def comprehensive_def)

section \<open>Properties of the extraction\<close>







lemma scan_slides_length: "length (scan_slides n deck) \<le> length deck"
proof (induction deck arbitrary: n)
  case Nil
  then show ?case by simp
next
  case (Cons sl deck)
  have "length (scan_slides (n + 1) deck) \<le> length deck" by (rule Cons.IH)
  then show ?case by simp
qed

lemma scan_slides_kept:
  "s \<in> set (scan_slides n deck) \<Longrightarrow> title s \<noteq> [] \<or> content s \<noteq> []"
  by (induction deck arbitrary: n) (auto split: if_splits)

lemma extraction_counts:
  assumes "presentation E file_stream = Inr deck"
  shows "\<exists>r. extract_text_with_structure E file_stream = Inr r
     \<and> total_slides r = length deck
     \<and> length (slides r) \<le> total_slides r
     \<and> (\<forall>s \<in> set (slides r). title s \<noteq> [] \<or> content s \<noteq> [])"
proof -
  let ?r = "\<lparr>total_slides = length deck, slides = scan_slides 1 deck,
             full_text = join [LF] (map slide_lines (scan_slides 1 deck))\<rparr>"
  have e: "extract_text_with_structure E file_stream = Inr ?r"
    using assms by (simp add: extract_text_with_structure_def)
  have "total_slides ?r = length deck
     \<and> length (slides ?r) \<le> total_slides ?r
     \<and> (\<forall>s \<in> set (slides ?r). title s \<noteq> [] \<or> content s \<noteq> [])"
    using scan_slides_length [of 1 deck] scan_slides_kept [of _ 1 deck] by auto
  with e show ?thesis by blast
qed

text \<open>
  Claim C5, where the code departs from it. The counts and the invariant of the kept
  slides hold (\<open>extraction_counts\<close>), but a blank slide is not always dropped: the
  paragraphs of the content are tested after \<open>strip()\<close>, the title is not. A deck whose
  only slide has a title placeholder holding one space has no text that is non-blank
  after trimming, and yet the slide is kept and \<open>full_text\<close> is not empty.
\<close>

theorem whitespace_title_slide_kept:
  "strip (shape_text whitespace_title) = []
   \<and> map strip (paragraphs whitespace_title) = [[]]
   \<and> extract_text_with_structure
        (example_env\<lparr>presentation := (\<lambda>b. Inr [[whitespace_title]])\<rparr>) []
     = Inr \<lparr>total_slides = 1,
            slides = [\<lparr>slide_number = 1, title = asc '' '', content = []\<rparr>],
            full_text = asc ''Slide 1:  \<newline>''\<rparr>"
  by (simp add: extract_text_with_structure_def scan_slide_def scan_shape_def
        title_candidate_def slide_lines_def whitespace_title_def strip_def py_isspace_def
        str_nat.simps)

section \<open>Properties of the page numbering\<close>

lemma draw_page_number_code:
  "draw_page_number md n nc =
     nc\<lparr>current := (current nc)\<lparr>page_code := page_code (current nc)
                       @ footer_and_header md (pageNumber (current nc)) n\<rparr>\<rparr>"
  by (simp add: draw_page_number_def draw_def footer_and_header_def)

lemma stamp_page_eq:
  "stamp_page md n nc st =
     nc\<lparr>doc_pages := doc_pages nc @ [page_code st @ footer_and_header md (pageNumber st) n],
        current := \<lparr>pageNumber = pageNumber st + 1, page_code = []\<rparr>\<rparr>"
  by (simp add: stamp_page_def draw_page_number_code Canvas_showPage_def startPage_def)

lemma stamp_pages_doc:
  "doc_pages (foldl (stamp_page md n) nc sts) =
     doc_pages nc @ map (\<lambda>st. page_code st @ footer_and_header md (pageNumber st) n) sts"
  by (induction sts arbitrary: nc) (simp_all add: stamp_page_eq)

lemma stamp_pages_code:
  "page_code (current (foldl (stamp_page md n) nc sts)) =
     (if sts = [] then page_code (current nc) else [])"
proof (induction sts arbitrary: nc)
  case Nil
  then show ?case by simp
next
  case (Cons st sts)
  have "page_code (current (stamp_page md n nc st)) = []"
    by (simp add: stamp_page_eq)
  then show ?case by (simp only: foldl_Cons Cons.IH) simp
qed

lemma stamp_pages_saved:
  "saved_page_states (foldl (stamp_page md n) nc sts) = saved_page_states nc"
  by (induction sts arbitrary: nc) (simp_all add: stamp_page_eq)

lemma save_pages:
  assumes "page_code (current nc) = []"
  shows "save md nc =
     doc_pages nc @ map (\<lambda>st. page_code st
                             @ footer_and_header md (pageNumber st) (length (saved_page_states nc)))
                      (saved_page_states nc)"
  using assms by (simp add: save_def Let_def stamp_pages_doc stamp_pages_code)

lemma draw_flowables:
  "foldl (call cm) nc (map (\<lambda>f. Draw (Flow f)) fs) =
     nc\<lparr>current := (current nc)\<lparr>page_code := page_code (current nc) @ map Flow fs\<rparr>\<rparr>"
  by (induction fs arbitrary: nc) (simp_all add: call_def draw_def)

lemma numbered_page:
  "foldl (call NumberedCanvas) nc (map (\<lambda>f. Draw (Flow f)) fs @ [ShowPage]) =
     nc\<lparr>saved_page_states := saved_page_states nc
            @ [(current nc)\<lparr>page_code := page_code (current nc) @ map Flow fs\<rparr>],
        current := \<lparr>pageNumber = pageNumber (current nc) + 1, page_code = []\<rparr>\<rparr>"
  by (simp add: draw_flowables call_def showPage_def startPage_def)

lemma plain_page:
  "foldl (call PlainCanvas) nc (map (\<lambda>f. Draw (Flow f)) fs @ [ShowPage]) =
     nc\<lparr>doc_pages := doc_pages nc @ [page_code (current nc) @ map Flow fs],
        current := \<lparr>pageNumber = pageNumber (current nc) + 1, page_code = []\<rparr>\<rparr>"
  by (simp add: draw_flowables call_def Canvas_showPage_def startPage_def)

lemma page_calls_Cons:
  "page_calls (fs # pages) = (map (\<lambda>f. Draw (Flow f)) fs @ [ShowPage]) @ page_calls pages"
  by (simp add: page_calls_def)

lemma numbered_run:
  assumes "page_code (current nc) = []"
  shows "saved_page_states (foldl (call NumberedCanvas) nc (page_calls pages)) =
           saved_page_states nc
             @ map (\<lambda>(k, fs). \<lparr>pageNumber = k, page_code = map Flow fs\<rparr>)
                 (enumerate (pageNumber (current nc)) pages)
         \<and> doc_pages (foldl (call NumberedCanvas) nc (page_calls pages)) = doc_pages nc
         \<and> page_code (current (foldl (call NumberedCanvas) nc (page_calls pages))) = []"
  using assms
proof (induction pages arbitrary: nc)
  case Nil
  then show ?case by (simp add: page_calls_def)
next
  case (Cons fs pages)
  let ?nc = "foldl (call NumberedCanvas) nc (map (\<lambda>f. Draw (Flow f)) fs @ [ShowPage])"
  have c: "page_code (current ?nc) = []" unfolding numbered_page by simp
  have s: "saved_page_states ?nc
             = saved_page_states nc @ [\<lparr>pageNumber = pageNumber (current nc), page_code = map Flow fs\<rparr>]"
    unfolding numbered_page using Cons.prems by simp
  have n: "pageNumber (current ?nc) = Suc (pageNumber (current nc))"
    unfolding numbered_page by simp
  have d: "doc_pages ?nc = doc_pages nc" unfolding numbered_page by simp
  show ?case
    unfolding page_calls_Cons foldl_append
    using Cons.IH [OF c] s n d by simp
qed

lemma plain_run:
  assumes "page_code (current nc) = []"
  shows "doc_pages (foldl (call PlainCanvas) nc (page_calls pages)) =
           doc_pages nc @ map (map Flow) pages
         \<and> page_code (current (foldl (call PlainCanvas) nc (page_calls pages))) = []"
  using assms
proof (induction pages arbitrary: nc)
  case Nil
  then show ?case by (simp add: page_calls_def)
next
  case (Cons fs pages)
  let ?nc = "foldl (call PlainCanvas) nc (map (\<lambda>f. Draw (Flow f)) fs @ [ShowPage])"
  have c: "page_code (current ?nc) = []" unfolding plain_page by simp
  have d: "doc_pages ?nc = doc_pages nc @ [map Flow fs]"
    unfolding plain_page using Cons.prems by simp
  show ?case
    unfolding page_calls_Cons foldl_append
    using Cons.IH [OF c] d by simp
qed

lemma run_numbered_canvas:
  "run_canvas NumberedCanvas md (page_calls pages) =
     map (\<lambda>(k, fs). map Flow fs @ footer_and_header md k (length pages)) (enumerate 1 pages)"
proof -
  have c: "page_code (current new_canvas) = []" by (simp add: new_canvas_def)
  note r = numbered_run [OF c, of pages]
  have "save md (foldl (call NumberedCanvas) new_canvas (page_calls pages)) =
     map (\<lambda>(k, fs). map Flow fs @ footer_and_header md k (length pages)) (enumerate 1 pages)"
    using r by (simp add: save_pages new_canvas_def split_def comp_def)
  then show ?thesis by (simp add: run_canvas_def)
qed

lemma run_plain_canvas:
  "run_canvas PlainCanvas md (page_calls pages) = map (map Flow) pages"
proof -
  have c: "page_code (current new_canvas) = []" by (simp add: new_canvas_def)
  note r = plain_run [OF c, of pages]
  show ?thesis using r by (simp add: run_canvas_def Canvas_save_def new_canvas_def)
qed

text \<open>
  Claim C8, as the code has it. A document built with \<open>NumberedCanvas\<close> (the structured
  story) has the pages of the layout, and page \<open>k + 1\<close> ends with the footer
  \<open>Page k+1 of Y\<close>, drawn right-aligned, where \<open>Y\<close> is the number of pages of the
  document, and with the header \<open>Study Material - \<close> followed by the metadata's material
  type (\<open>Notes\<close> when it has none). The structured path of \<open>create_professional_pdf\<close> is
  such a build. A build with the plain canvas, which is the fallback's, draws the
  flowables only.
\<close>

theorem page_footers:
  assumes "layout E story = Inr pages"
  shows "(\<exists>pdf. build E NumberedCanvas md story = Inr pdf
            \<and> length pdf = length pages
            \<and> (\<forall>k < length pdf.
                  pdf ! k = map Flow (pages ! k) @ footer_and_header md (k + 1) (length pdf)))
     \<and> footer_and_header md page page_count =
         [SetFont (asc ''Helvetica'') 9,
          SetFillColor (asc ''grey''),
          DrawRightString 558 54
            (asc ''Page '' @ str_nat page @ asc '' of '' @ str_nat page_count),
          DrawString 54 756
            (asc ''Study Material - ''
               @ (case md_material_type md of None \<Rightarrow> asc ''Notes'' | Some m \<Rightarrow> m))]
     \<and> (structured_story E text_content md = Inr story \<longrightarrow>
          create_professional_pdf E text_content md = build E NumberedCanvas md story)
     \<and> build E PlainCanvas md story = Inr (map (map Flow) pages)"
proof -
  let ?pdf = "map (\<lambda>(k, fs). map Flow fs @ footer_and_header md k (length pages))
                (enumerate 1 pages)"
  have b: "build E NumberedCanvas md story = Inr ?pdf"
    using assms by (simp add: build_def run_numbered_canvas)
  have l: "length ?pdf = length pages" by simp
  have n: "\<forall>k < length ?pdf.
             ?pdf ! k = map Flow (pages ! k) @ footer_and_header md (k + 1) (length ?pdf)"
    by (simp add: nth_enumerate_eq)
  have c: "structured_story E text_content md = Inr story \<longrightarrow>
          create_professional_pdf E text_content md = build E NumberedCanvas md story"
    using b by (simp add: create_professional_pdf_def)
  have p: "build E PlainCanvas md story = Inr (map (map Flow) pages)"
    using assms by (simp add: build_def run_plain_canvas)
  show ?thesis
    using b l n c p footer_and_header_def [of md page page_count] by blast
qed

theorem page_footers_witness:
  "layout two_page_env [Paragraph (asc ''a'') NormalText, Spacer 1 6, Spacer 1 6,
                        Paragraph (asc ''b'') NormalText]
     = Inr [[Paragraph (asc ''a'') NormalText, Spacer 1 6, Spacer 1 6],
            [Paragraph (asc ''b'') NormalText]]
   \<and> build two_page_env NumberedCanvas no_metadata
        [Paragraph (asc ''a'') NormalText, Spacer 1 6, Spacer 1 6,
         Paragraph (asc ''b'') NormalText]
     = Inr [[Flow (Paragraph (asc ''a'') NormalText), Flow (Spacer 1 6), Flow (Spacer 1 6),
             SetFont (asc ''Helvetica'') 9, SetFillColor (asc ''grey''),
             DrawRightString 558 54 (asc ''Page 1 of 2''),
             DrawString 54 756 (asc ''Study Material - Notes'')],
            [Flow (Paragraph (asc ''b'') NormalText),
             SetFont (asc ''Helvetica'') 9, SetFillColor (asc ''grey''),
             DrawRightString 558 54 (asc ''Page 2 of 2''),
             DrawString 54 756 (asc ''Study Material - Notes'')]]"
proof -
  have h: "layout two_page_env [Paragraph (asc ''a'') NormalText, Spacer 1 6, Spacer 1 6,
                        Paragraph (asc ''b'') NormalText]
     = Inr [[Paragraph (asc ''a'') NormalText, Spacer 1 6, Spacer 1 6],
            [Paragraph (asc ''b'') NormalText]]"
    by (simp add: two_page_env_def example_env_def)
  have e: "build two_page_env NumberedCanvas no_metadata
        [Paragraph (asc ''a'') NormalText, Spacer 1 6, Spacer 1 6,
         Paragraph (asc ''b'') NormalText]
     = Inr [[Flow (Paragraph (asc ''a'') NormalText), Flow (Spacer 1 6), Flow (Spacer 1 6),
             SetFont (asc ''Helvetica'') 9, SetFillColor (asc ''grey''),
             DrawRightString 558 54 (asc ''Page 1 of 2''),
             DrawString 54 756 (asc ''Study Material - Notes'')],
            [Flow (Paragraph (asc ''b'') NormalText),
             SetFont (asc ''Helvetica'') 9, SetFillColor (asc ''grey''),
             DrawRightString 558 54 (asc ''Page 2 of 2''),
             DrawString 54 756 (asc ''Study Material - Notes'')]]"
    by (simp add: build_def two_page_env_def example_env_def run_numbered_canvas
          footer_and_header_def no_metadata_def str_nat.simps)
  show ?thesis using page_footers [OF h, of no_metadata] h e by blast
qed

text \<open>
  The claim as stated fails for the fallback document: when the layout of the structured
  story raises, the document is built without \<open>NumberedCanvas\<close> and its page has neither
  footer nor header.
\<close>

theorem page_footers_counterexample:
  "create_professional_pdf small_env (asc ''- a\<newline>- b'') no_metadata
     = Inr [[Flow (Paragraph (asc ''Personalized Study Material'') CustomTitle),
             Flow (Spacer 1 20),
             Flow (Paragraph (asc ''- a\<newline>- b'') NormalText),
             Flow (Spacer 1 12)]]"
  by (simp add: create_professional_pdf_def structured_story_def fallback_story_def
        fallback_chunk_def append_paragraph_def add_line_def classify_def build_def
        run_canvas_def Canvas_save_def page_calls_def call_def draw_def Canvas_showPage_def
        startPage_def new_canvas_def meta_text_def small_env_def example_env_def no_metadata_def
        lower_def isdigit_def startswith_def strip_def py_isspace_def remove_markup_def
        remove_chr_def escape_def escape_chr_def convert_markdown_to_html_def)

section \<open>Properties of the line classification\<close>

















lemma escape_hash: "hash \<in> set (escape s) \<longleftrightarrow> hash \<in> set s"
  by (induction s) (auto simp: escape_def escape_chr_def)


lemma add_lines_error:
  "add_line E s raw = Inl e \<Longrightarrow> add_lines E s (raw # raws) = Inl e"
  by simp

lemma add_lines_step:
  "add_line E s raw = Inr s' \<Longrightarrow> add_lines E s (raw # raws) = add_lines E s' raws"
  by simp

text \<open>
  Claim C10, as the code has it. When the paragraph of a normal-text line cannot be built,
  the line is tried once more without \<open>*\<close> and \<open>#\<close> and escaped. If that paragraph is
  built, it is appended and the loop goes on with the next line. The second attempt is
  not guarded: if it raises too, the exception leaves the loop.
\<close>

theorem normal_text_retry:
  assumes "classify E (strip raw) = ParagraphBlock"
    and "paragraph_error E (convert_markdown_to_html (strip raw)) NormalText = Some msg"
  shows "(paragraph_error E (escape (remove_chr hash (remove_chr star (strip raw)))) NormalText
            = None \<longrightarrow>
          add_line E (story, in_list) raw
            = Inr (story @ [Paragraph (escape (remove_chr hash (remove_chr star (strip raw))))
                              NormalText], in_list)
          \<and> add_lines E (story, in_list) (raw # raws)
            = add_lines E
                (story @ [Paragraph (escape (remove_chr hash (remove_chr star (strip raw))))
                            NormalText], in_list) raws)
     \<and> star \<notin> set (escape (remove_chr hash (remove_chr star (strip raw))))
     \<and> hash \<notin> set (escape (remove_chr hash (remove_chr star (strip raw))))
     \<and> (paragraph_error E (escape (remove_chr hash (remove_chr star (strip raw)))) NormalText
            = Some msg' \<longrightarrow>
          add_line E (story, in_list) raw = Inl (ReportlabError msg')
          \<and> add_lines E (story, in_list) (raw # raws) = Inl (ReportlabError msg'))"
proof -
  let ?clean = "escape (remove_chr hash (remove_chr star (strip raw)))"
  have a: "paragraph_error E ?clean NormalText = None \<longrightarrow>
          add_line E (story, in_list) raw = Inr (story @ [Paragraph ?clean NormalText], in_list)"
    using assms by (simp add: add_line_def append_paragraph_def)
  have b: "paragraph_error E ?clean NormalText = Some msg' \<longrightarrow>
          add_line E (story, in_list) raw = Inl (ReportlabError msg')"
    using assms by (simp add: add_line_def append_paragraph_def)
  have c: "star \<notin> set ?clean" "hash \<notin> set ?clean"
    by (simp_all add: escape_star escape_hash remove_chr_def)
  show ?thesis
    using a b c add_lines_error [of E "(story, in_list)" raw "ReportlabError msg'" raws]
      add_lines_step [of E "(story, in_list)" raw _ raws]
    by (metis (no_types, lifting))
qed

theorem normal_text_retry_witness:
  "classify (example_env\<lparr>paragraph_error :=
               (\<lambda>t st. if 60 \<in> set t then Some (asc ''parse error'') else None)\<rparr>)
      (strip (asc ''see *this* ''))
     = ParagraphBlock
   \<and> paragraph_error (example_env\<lparr>paragraph_error :=
               (\<lambda>t st. if 60 \<in> set t then Some (asc ''parse error'') else None)\<rparr>)
        (convert_markdown_to_html (strip (asc ''see *this* ''))) NormalText
     = Some (asc ''parse error'')
   \<and> escape (remove_chr hash (remove_chr star (strip (asc ''see *this* '')))) = asc ''see this''
   \<and> add_lines (example_env\<lparr>paragraph_error :=
               (\<lambda>t st. if 60 \<in> set t then Some (asc ''parse error'') else None)\<rparr>)
        ([], False) [asc ''see *this* '', asc ''then go'']
     = Inr ([Paragraph (asc ''see this'') NormalText, Paragraph (asc ''then go'') NormalText],
            False)"
proof -
  let ?E = "example_env\<lparr>paragraph_error :=
               (\<lambda>t st. if 60 \<in> set t then Some (asc ''parse error'') else None)\<rparr>"
  have s: "strip (asc ''see *this* '') = asc ''see *this*''"
    by (simp add: strip_def py_isspace_def)
  have h1: "classify ?E (strip (asc ''see *this* '')) = ParagraphBlock"
    unfolding s by (simp add: classify_def lower_def isdigit_def startswith_def)
  have h2: "paragraph_error ?E (convert_markdown_to_html (strip (asc ''see *this* ''))) NormalText
     = Some (asc ''parse error'')"
    unfolding s by (simp add: convert_markdown_to_html_def escape_def escape_chr_def)
  have c: "escape (remove_chr hash (remove_chr star (strip (asc ''see *this* '')))) = asc ''see this''"
    unfolding s by (simp add: remove_chr_def escape_def escape_chr_def)
  have ev: "add_lines ?E ([], False) [asc ''see *this* '', asc ''then go'']
     = Inr ([Paragraph (asc ''see this'') NormalText, Paragraph (asc ''then go'') NormalText],
            False)"
    by (simp add: add_line_def append_paragraph_def classify_def lower_def isdigit_def
          startswith_def strip_def py_isspace_def convert_markdown_to_html_def escape_def
          escape_chr_def remove_chr_def)
  show ?thesis
    using normal_text_retry [OF h1 h2] h1 h2 c ev by blast
qed

text \<open>
  The claim as stated fails when the cleaned text is rejected as well: the error leaves
  \<open>create_professional_pdf\<close>, and no fallback document is made.
\<close>

theorem normal_text_retry_counterexample:
  "classify strict_env (strip [97, 0, 98]) = ParagraphBlock
   \<and> add_line strict_env ([], False) [97, 0, 98] = Inl (ReportlabError (asc ''invalid character''))
   \<and> create_professional_pdf strict_env [97, 0, 98] no_metadata
       = Inl (ReportlabError (asc ''invalid character''))"
  by (simp add: create_professional_pdf_def structured_story_def add_line_def
        append_paragraph_def classify_def lower_def isdigit_def startswith_def strip_def
        py_isspace_def convert_markdown_to_html_def escape_def escape_chr_def remove_chr_def
        meta_text_def strict_env_def example_env_def no_metadata_def)

section \<open>Properties of the fallback\<close>









end
